theory Spec2Isabelle
  imports Main "HOL-Library.AList"
begin

section \<open>JavaScript values and objects\<close>

text \<open>
  The scalar values a row holds (string, number, null) together with \<open>undefined\<close> and the
  booleans, and the two kinds of value a property read can find on \<open>Object.prototype\<close>:
  a native function (\<open>JFun\<close> with its name) and \<open>Object.prototype\<close> itself (\<open>JProto\<close>).
  Numbers are modelled by the integers; their decimal rendering below agrees with
  JavaScript's for magnitudes under \<open>10^21\<close>.
\<close>

datatype jsval = JUndefined | JNull | JBool bool | JNum int | JStr string | JFun string | JProto

text \<open>JavaScript truthiness, as used by \<open>&&\<close>, \<open>||\<close>, \<open>!\<close> and \<open>?:\<close>.\<close>

fun truthy :: "jsval \<Rightarrow> bool" where
  "truthy JUndefined = False"
| "truthy JNull = False"
| "truthy (JBool b) = b"
| "truthy (JNum n) = (n \<noteq> 0)"
| "truthy (JStr s) = (s \<noteq> [])"
| "truthy (JFun f) = True"
| "truthy JProto = True"

text \<open>
  A plain object is the list of its own enumerable properties in the order
  \<open>Object.keys\<close> yields them; its prototype is \<open>Object.prototype\<close>, as for every object
  literal and every row the driver returns.
\<close>

type_synonym obj = "(string \<times> jsval) list"

definition keys :: "obj \<Rightarrow> string list" where
  "keys ob = map fst ob"

text \<open>
  The members of \<open>Object.prototype\<close>, which every plain object inherits. The accessor
  \<open>__proto__\<close> reads the prototype of the object, here \<open>Object.prototype\<close>.
\<close>

definition objectPrototype :: obj where
  "objectPrototype =
     [(''constructor'', JFun ''Object''),
      (''__defineGetter__'', JFun ''__defineGetter__''),
      (''__defineSetter__'', JFun ''__defineSetter__''),
      (''hasOwnProperty'', JFun ''hasOwnProperty''),
      (''__lookupGetter__'', JFun ''__lookupGetter__''),
      (''__lookupSetter__'', JFun ''__lookupSetter__''),
      (''isPrototypeOf'', JFun ''isPrototypeOf''),
      (''propertyIsEnumerable'', JFun ''propertyIsEnumerable''),
      (''toString'', JFun ''toString''),
      (''valueOf'', JFun ''valueOf''),
      (''__proto__'', JProto),
      (''toLocaleString'', JFun ''toLocaleString'')]"

text \<open>
  \<open>getProp\<close> is the property read \<open>o[k]\<close>: an own property wins, then the prototype chain
  is searched, and a key found nowhere reads as \<open>undefined\<close>.
\<close>

definition getProp :: "obj \<Rightarrow> string \<Rightarrow> jsval" where
  "getProp ob k =
     (case map_of ob k of
        Some v \<Rightarrow> v
      | None \<Rightarrow> (case map_of objectPrototype k of Some v \<Rightarrow> v | None \<Rightarrow> JUndefined))"

text \<open>
  \<open>setProp\<close> is the assignment \<open>o[k] = v\<close>: an own property is overwritten in place and a
  new key is appended, which is the order \<open>Object.keys\<close> reports for keys that are not
  array indices. The key \<open>__proto__\<close>, unless it is an own property, reaches the setter
  inherited from \<open>Object.prototype\<close>, which stores no property: it ignores a scalar and
  re-links the prototype to an object, which for \<open>Object.prototype\<close> changes nothing
  (re-linking to a function is beyond this model of plain objects).
\<close>

definition setProp :: "string \<Rightarrow> jsval \<Rightarrow> obj \<Rightarrow> obj" where
  "setProp k v ob = (if k = ''__proto__'' \<and> map_of ob k = None then ob else AList.update k v ob)"

abbreviation dq :: string where "dq \<equiv> [CHR 0x22]"
abbreviation sq :: string where "sq \<equiv> [CHR 0x27]"
abbreviation bslash :: char where "bslash \<equiv> CHR 0x5C"

subsection \<open>Conversion to string\<close>

definition digit :: "nat \<Rightarrow> char" where
  "digit d = ''0123456789'' ! d"

function string_of_nat :: "nat \<Rightarrow> string" where
  "string_of_nat n =
     (if n < 10 then [digit n] else string_of_nat (n div 10) @ [digit (n mod 10)])"
  by pat_completeness auto
termination
  by (relation "measure id") auto

declare string_of_nat.simps [simp del]

definition string_of_int :: "int \<Rightarrow> string" where
  "string_of_int i = (if i < 0 then CHR ''-'' # string_of_nat (nat (- i)) else string_of_nat (nat i))"

text \<open>\<open>String(value)\<close>, which is also what a template literal \<open>${value}\<close> interpolates.\<close>

fun toString :: "jsval \<Rightarrow> string" where
  "toString JUndefined = ''undefined''"
| "toString JNull = ''null''"
| "toString (JBool b) = (if b then ''true'' else ''false'')"
| "toString (JNum n) = string_of_int n"
| "toString (JStr s) = s"
| "toString (JFun f) = ''function '' @ f @ ''() { [native code] }''"
| "toString JProto = ''[object Object]''"

text \<open>
  \<open>Array.prototype.join\<close> renders \<open>undefined\<close> and \<open>null\<close> elements as the empty string
  and every other element by \<open>String\<close>.
\<close>

fun joinItem :: "jsval \<Rightarrow> string" where
  "joinItem JUndefined = []"
| "joinItem JNull = []"
| "joinItem v = toString v"

fun join :: "string \<Rightarrow> string list \<Rightarrow> string" where
  "join sep [] = []"
| "join sep [x] = x"
| "join sep (x # y # ys) = x @ sep @ join sep (y # ys)"

text \<open>\<open>s.replace(/c/g, r)\<close> for a single character \<open>c\<close>.\<close>

definition replaceAll :: "char \<Rightarrow> string \<Rightarrow> string \<Rightarrow> string" where
  "replaceAll c r s = concat (map (\<lambda>x. if x = c then r else [x]) s)"

text \<open>\<open>key.startsWith(c)\<close> for a one-character prefix.\<close>

fun startsWith :: "string \<Rightarrow> char \<Rightarrow> bool" where
  "startsWith [] c = False"
| "startsWith (x # xs) c = (x = c)"

section \<open>Query builders (mysql-helper.js)\<close>

definition escapeValue :: "jsval \<Rightarrow> string" where
  "escapeValue v =
     replaceAll (CHR 0x00) [bslash, CHR ''0'']
       (replaceAll (CHR 0x22) (bslash # dq)
         (replaceAll (CHR 0x27) (bslash # sq)
           (replaceAll bslash [bslash, bslash] (toString v))))"

text \<open>The \<open>elements\<close> of \<open>buildInsertQuery\<close>: the keys of the row that pass its filter.\<close>

definition insertElements :: "obj \<Rightarrow> obj \<Rightarrow> string list" where
  "insertElements data properties =
     filter (\<lambda>key. \<not> startsWith key (CHR ''_'') \<and> truthy (getProp properties key) \<and> truthy (getProp data key))
       (keys data)"

text \<open>\<open>buildInsertQuery(table, data, properties, safe)\<close>; \<open>None\<close> is the returned \<open>null\<close>.\<close>

definition buildInsertQuery :: "jsval \<Rightarrow> obj \<Rightarrow> obj \<Rightarrow> bool \<Rightarrow> string option" where
  "buildInsertQuery table data properties safe =
     (let elements = insertElements data properties in
      if length elements = 0 then None
      else
        let columns = join ''`, `'' elements;
            vals = join (dq @ '', '' @ dq)
                     (map (\<lambda>key. if safe then escapeValue (getProp data key) else joinItem (getProp data key))
                        elements)
        in Some (''INSERT INTO '' @ toString table @ '' (`'' @ columns @ ''`) VALUES ('' @ dq @ vals @ dq @ '');''))"

text \<open>\<open>buildDeleteQuery(table, id)\<close>.\<close>

definition buildDeleteQuery :: "jsval \<Rightarrow> jsval \<Rightarrow> string" where
  "buildDeleteQuery table ident =
     ''DELETE FROM '' @ toString table @ '' WHERE guid = '' @ dq @ toString ident @ dq @ '';''"

subsection \<open>Errors and free identifiers\<close>

text \<open>A thrown JavaScript error with its message.\<close>

datatype error = Error string | TypeError string | ReferenceError string

fun message :: "error \<Rightarrow> string" where
  "message (Error m) = m"
| "message (TypeError m) = m"
| "message (ReferenceError m) = m"

text \<open>
  The bindings visible to a function body for the identifiers it does not declare itself.
  Reading an identifier that has no binding throws a \<open>ReferenceError\<close>.
\<close>

type_synonym scope = "string \<Rightarrow> jsval option"

definition lookupIdent :: "scope \<Rightarrow> string \<Rightarrow> error + jsval" where
  "lookupIdent sc x = (case sc x of None \<Rightarrow> Inl (ReferenceError (x @ '' is not defined'')) | Some v \<Rightarrow> Inr v)"

text \<open>
  \<open>buildSelectQuery\<close> reads \<open>date_format\<close> and \<open>datetime_format\<close>. The module neither
  declares nor imports them, and no other file of the repository defines them.
\<close>

definition module_scope :: scope where
  "module_scope = (\<lambda>x. None)"

subsection \<open>SELECT\<close>

text \<open>
  The recognised options \<open>{limit, offset, orderBy, groupBy, where}\<close>. A \<open>where\<close> is an object
  of column and condition pairs; \<open>None\<close> is an absent or falsy one.
\<close>

record selectArgs =
  limit :: jsval
  offset :: jsval
  orderBy :: jsval
  groupBy :: jsval
  whereObj :: "obj option"

definition noArgs :: selectArgs where
  "noArgs = \<lparr>limit = JUndefined, offset = JUndefined, orderBy = JUndefined, groupBy = JUndefined,
             whereObj = None\<rparr>"

text \<open>
  The \<open>.map\<close> of \<open>timeConversion\<close> over the date and datetime columns: the callback
  evaluates one of the two free identifiers for each column, in key order.
\<close>

fun timeConversionItems :: "scope \<Rightarrow> obj \<Rightarrow> string list \<Rightarrow> error + string list" where
  "timeConversionItems sc properties [] = Inr []"
| "timeConversionItems sc properties (key # ks) =
     (case lookupIdent sc (if getProp properties key = JStr ''date'' then ''date_format'' else ''datetime_format'') of
        Inl e \<Rightarrow> Inl e
      | Inr fmt \<Rightarrow>
          (case timeConversionItems sc properties ks of
             Inl e \<Rightarrow> Inl e
           | Inr rest \<Rightarrow>
               Inr (('', DATE_FORMAT('' @ key @ '', '' @ sq @ toString fmt @ sq @ '') AS '' @ key) # rest)))"

definition timeConversion :: "scope \<Rightarrow> obj \<Rightarrow> error + string" where
  "timeConversion sc properties =
     (case timeConversionItems sc properties
             (filter (\<lambda>key. getProp properties key = JStr ''date'' \<or> getProp properties key = JStr ''datetime'')
                (keys properties)) of
        Inl e \<Rightarrow> Inl e
      | Inr items \<Rightarrow> Inr (join [] items))"

definition whereStmt :: "jsval \<Rightarrow> jsval \<Rightarrow> bool \<Rightarrow> obj option \<Rightarrow> string" where
  "whereStmt ident key all wh =
     (case wh of
        Some w \<Rightarrow> join '' AND '' (map (\<lambda>x. x @ '' '' @ toString (getProp w x)) (keys w))
      | None \<Rightarrow> if all then [] else '' WHERE '' @ toString key @ '' = '' @ dq @ toString ident @ dq)"

text \<open>\<open>buildSelectQuery(table, properties, id, key, all, args)\<close>; \<open>Inl\<close> is a thrown error.\<close>

definition buildSelectQuery ::
  "scope \<Rightarrow> jsval \<Rightarrow> obj \<Rightarrow> jsval \<Rightarrow> jsval \<Rightarrow> bool \<Rightarrow> selectArgs \<Rightarrow> error + string" where
  "buildSelectQuery sc table properties ident key all args =
     (case timeConversion sc properties of
        Inl e \<Rightarrow> Inl e
      | Inr tc \<Rightarrow>
          Inr (''SELECT *'' @ tc @ '' FROM '' @ toString table @ whereStmt ident key all (whereObj args)
               @ (if truthy (orderBy args) then '' ORDER BY '' @ toString (orderBy args) else [])
               @ (if truthy (groupBy args) then '' GROUP BY '' @ toString (groupBy args) else [])
               @ (if truthy (offset args) then '' OFFSET '' @ toString (offset args) else [])
               @ (if truthy (limit args) then '' LIMIT '' @ toString (limit args) else [])
               @ '';''))"

section \<open>Query executor (mysql-helper.js)\<close>

text \<open>
  What \<open>pool.query\<close> resolves to, after \<open>const [rows] = result\<close>: the row array of a SELECT,
  or the header object of a modifying statement with its \<open>insertId\<close> and \<open>affectedRows\<close>.
\<close>

datatype qresult = Rows "obj list" | ResultSetHeader int int

text \<open>
  The database behind the driver: given the statement text and the state of the outside
  world it either rejects with an error or resolves with a result, and leaves a new state.
\<close>

type_synonym 'w driver = "string \<Rightarrow> 'w \<Rightarrow> (error + qresult) \<times> 'w"

text \<open>
  The process environment: the outside world, the pools created so far (\<open>nextPool\<close> names
  the next one), the pools that have not been ended, and \<open>process.env.DB_DB\<close>.
\<close>

record 'w env =
  world :: 'w
  nextPool :: nat
  openPools :: "nat list"
  DB_DB :: jsval

definition createPool :: "'w env \<Rightarrow> nat \<times> 'w env" where
  "createPool env = (nextPool env, env\<lparr>nextPool := Suc (nextPool env), openPools := nextPool env # openPools env\<rparr>)"

definition poolEnd :: "nat \<Rightarrow> 'w env \<Rightarrow> 'w env" where
  "poolEnd pool env = env\<lparr>openPools := removeAll pool (openPools env)\<rparr>"

text \<open>
  \<open>queryPromise(str)\<close>. A rejected \<open>pool.query\<close> propagates out of the function at the
  \<open>await\<close>, before \<open>pool.end()\<close> is reached.
\<close>

definition queryPromise :: "'w driver \<Rightarrow> string \<Rightarrow> 'w env \<Rightarrow> (error + qresult) \<times> 'w env" where
  "queryPromise drv str env =
     (case createPool env of
        (pool, env1) \<Rightarrow>
          (case drv str (world env1) of
             (Inl e, w) \<Rightarrow> (Inl e, env1\<lparr>world := w\<rparr>)
           | (Inr rows, w) \<Rightarrow> (Inr rows, poolEnd pool (env1\<lparr>world := w\<rparr>))))"

text \<open>What an async function hands back: \<open>undefined\<close>, a number, or a query result.\<close>

datatype retval = RUndefined | RNum int | RResult qresult

text \<open>
  The \<open>while\<close> loop of \<open>executeQueryWithRetry\<close> with its variables \<open>attempt\<close> and \<open>lastError\<close>.
  The count \<open>retries\<close> is an integer; a caller that omits it passes the default \<open>3\<close>.
\<close>

function executeQueryWithRetry_loop ::
  "'w driver \<Rightarrow> string \<Rightarrow> int \<Rightarrow> int \<Rightarrow> error option \<Rightarrow> 'w env \<Rightarrow> (error + retval) \<times> 'w env" where
  "executeQueryWithRetry_loop drv query retries attempt lastError env =
     (if attempt < retries then
        (case queryPromise drv query env of
           (Inr rows, env') \<Rightarrow> (Inr (RResult rows), env')
         | (Inl err, env') \<Rightarrow>
             (if attempt + 1 \<ge> retries
              then (Inl (Error (''Query failed after '' @ string_of_int retries @ '' attempts: '' @ message err)), env')
              else executeQueryWithRetry_loop drv query retries (attempt + 1) (Some err) env'))
      else (Inr RUndefined, env))"
  by pat_completeness auto
termination
  by (relation "measure (\<lambda>(drv, query, retries, attempt, lastError, env). nat (retries - attempt))") auto

declare executeQueryWithRetry_loop.simps [simp del]

definition executeQueryWithRetry ::
  "'w driver \<Rightarrow> string \<Rightarrow> int \<Rightarrow> 'w env \<Rightarrow> (error + retval) \<times> 'w env" where
  "executeQueryWithRetry drv query retries env = executeQueryWithRetry_loop drv query retries 0 None env"

text \<open>
  The outcomes of \<open>n\<close> successive executions of one statement, each from the environment
  the one before it left. The theorems on the retry loop are stated against this trace.
\<close>

fun attempts :: "'w driver \<Rightarrow> string \<Rightarrow> nat \<Rightarrow> 'w env \<Rightarrow> (error + qresult) list" where
  "attempts drv query 0 env = []"
| "attempts drv query (Suc n) env =
     (case queryPromise drv query env of (r, env') \<Rightarrow> r # attempts drv query n env')"

section \<open>Schema introspection (mysql-helper.js)\<close>

text \<open>
  \<open>getPropertiesFromDB(table)\<close>: each returned row stores \<open>DATA_TYPE || 'undefined'\<close> under
  its \<open>COLUMN_NAME\<close>. Anything thrown inside the \<open>try\<close>, a rejected query or \<open>forEach\<close>
  missing on a header object, is replaced by the error of the \<open>catch\<close>.
\<close>

definition propertiesOfRows :: "obj list \<Rightarrow> obj" where
  "propertiesOfRows response =
     foldl (\<lambda>properties column.
              setProp (toString (getProp column ''COLUMN_NAME''))
                (if truthy (getProp column ''DATA_TYPE'') then getProp column ''DATA_TYPE'' else JStr ''undefined'')
                properties)
       [] response"

definition propertiesQuery :: "jsval \<Rightarrow> jsval \<Rightarrow> string" where
  "propertiesQuery db table =
     ''SELECT DATA_TYPE, COLUMN_NAME FROM INFORMATION_SCHEMA.COLUMNS WHERE TABLE_SCHEMA = '' @ sq
       @ toString db @ sq @ '' AND TABLE_NAME = '' @ sq @ toString table @ sq"

definition getPropertiesFromDB :: "'w driver \<Rightarrow> jsval \<Rightarrow> 'w env \<Rightarrow> (error + obj) \<times> 'w env" where
  "getPropertiesFromDB drv table env =
     (case queryPromise drv (propertiesQuery (DB_DB env) table) env of
        (Inr (Rows response), env') \<Rightarrow> (Inr (propertiesOfRows response), env')
      | (_, env') \<Rightarrow> (Inl (Error (''Failed to load properties from table: '' @ toString table)), env'))"

section \<open>The record object (mysql-object.js)\<close>

text \<open>
  The fields of an \<open>SQLObject\<close> instance. The source names them \<open>_table\<close>, \<open>_data\<close>,
  \<open>_datum\<close>, \<open>_key\<close>, \<open>_id\<close>, \<open>_last\<close>, \<open>_properties\<close>, \<open>_initialized\<close>, \<open>_read\<close> and
  \<open>all\<close>; \<open>None\<close> is a field that is unset or holds \<open>undefined\<close>, and an unset flag is \<open>False\<close>.
\<close>

record lastOp =
  query :: string
  response :: qresult

record SQLObject =
  u_table :: jsval
  u_data :: "obj list option"
  u_datum :: "obj option"
  u_key :: jsval
  u_id :: jsval
  all_flag :: bool
  u_last :: "lastOp option"
  u_properties :: "obj option"
  u_initialized :: bool
  u_read :: bool

text \<open>
  A value assigned to the \<open>data\<close> property: a scalar, a plain object, or an array of rows.
  Values that \<open>JSON.stringify\<close> rejects (a BigInt, a cyclic object) are not modelled.
\<close>

datatype anyval = Scalar jsval | Object obj | Array "obj list"

fun isArray :: "anyval \<Rightarrow> bool" where
  "isArray (Array rs) = True"
| "isArray v = False"

text \<open>\<open>value[0]\<close> of an array: \<open>undefined\<close> when the array is empty.\<close>

fun first :: "obj list \<Rightarrow> obj option" where
  "first [] = None"
| "first (r # rs) = Some r"

subsection \<open>Getters and setters\<close>

definition get_data :: "SQLObject \<Rightarrow> obj list" where
  "get_data this =
     (case u_data this of
        Some d \<Rightarrow> d
      | None \<Rightarrow> (case u_datum this of Some r \<Rightarrow> [r] | None \<Rightarrow> []))"

definition get_datum :: "SQLObject \<Rightarrow> obj" where
  "get_datum this =
     (case u_datum this of
        Some r \<Rightarrow> r
      | None \<Rightarrow> (case first (get_data this) of Some r \<Rightarrow> r | None \<Rightarrow> []))"

definition get_id :: "SQLObject \<Rightarrow> jsval" where
  "get_id this =
     (case first (get_data this) of
        Some r \<Rightarrow> (if truthy (getProp r (toString (u_key this))) then getProp r (toString (u_key this)) else u_id this)
      | None \<Rightarrow> JNull)"

definition get_properties :: "SQLObject \<Rightarrow> obj" where
  "get_properties this = (case u_properties this of Some p \<Rightarrow> p | None \<Rightarrow> [])"

definition get_initialized :: "SQLObject \<Rightarrow> bool" where
  "get_initialized this = u_initialized this"

definition set_datum :: "obj option \<Rightarrow> SQLObject \<Rightarrow> SQLObject" where
  "set_datum v this = this\<lparr>u_datum := v\<rparr>"

text \<open>The \<open>data\<close> setter; the warning it logs for a non-array is not part of the state.\<close>

fun set_data :: "anyval \<Rightarrow> SQLObject \<Rightarrow> SQLObject" where
  "set_data (Array rs) this = set_datum (first rs) (this\<lparr>u_data := Some rs\<rparr>)"
| "set_data v this = this"

definition set_last :: "string \<Rightarrow> qresult \<Rightarrow> SQLObject \<Rightarrow> SQLObject" where
  "set_last q r this =
     this\<lparr>u_last := Some \<lparr>query = (if q = [] then ''No query recorded!'' else q), response = r\<rparr>\<rparr>"

subsection \<open>Operations\<close>

text \<open>
  Every operation takes the object and the environment and returns what the async
  function resolves to (\<open>Inr\<close>) or rejects with (\<open>Inl\<close>), with the object and the
  environment as they are left.
\<close>

definition initialize ::
  "'w driver \<Rightarrow> SQLObject \<Rightarrow> 'w env \<Rightarrow> (error + obj) \<times> SQLObject \<times> 'w env" where
  "initialize drv this env =
     (if get_initialized this then (Inr (get_properties this), this, env)
      else
        (case getPropertiesFromDB drv (u_table this) env of
           (Inl e, env') \<Rightarrow> (Inl e, this, env')
         | (Inr properties, env') \<Rightarrow> (Inr properties, this\<lparr>u_properties := Some properties\<rparr>, env')))"

text \<open>
  The first line of every operation, \<open>if (!this._initialized) await this.initialize()\<close>
  (\<open>create\<close> tests the getter, which reads the same field): \<open>Some e\<close> is the error
  \<open>initialize\<close> threw. No code path sets the flag, so unless the caller assigns
  \<open>initialized\<close> every operation loads the schema again.
\<close>

definition ensureInitialized ::
  "'w driver \<Rightarrow> SQLObject \<Rightarrow> 'w env \<Rightarrow> error option \<times> SQLObject \<times> 'w env" where
  "ensureInitialized drv this env =
     (if \<not> get_initialized this then
        (case initialize drv this env of
           (Inl e, this', env') \<Rightarrow> (Some e, this', env')
         | (Inr p, this', env') \<Rightarrow> (None, this', env'))
      else (None, this, env))"

text \<open>\<open>data.length\<close> of a query result: a header object has no such property.\<close>

fun lengthOf :: "qresult \<Rightarrow> jsval" where
  "lengthOf (Rows rs) = JNum (int (length rs))"
| "lengthOf (ResultSetHeader i a) = JUndefined"

fun insertIdOf :: "qresult \<Rightarrow> jsval" where
  "insertIdOf (Rows rs) = JUndefined"
| "insertIdOf (ResultSetHeader i a) = JNum i"

fun asAnyval :: "qresult \<Rightarrow> anyval" where
  "asAnyval (Rows rs) = Array rs"
| "asAnyval (ResultSetHeader i a) = Object [(''insertId'', JNum i), (''affectedRows'', JNum a)]"

text \<open>
  The body of \<open>read\<close> after the schema has been ensured. A header object has no
  \<open>length\<close>, so it takes the branch of the empty result.
\<close>

definition read_body ::
  "'w driver \<Rightarrow> scope \<Rightarrow> selectArgs \<Rightarrow> SQLObject \<Rightarrow> 'w env \<Rightarrow> (error + retval) \<times> SQLObject \<times> 'w env" where
  "read_body drv sc args this env =
     (case buildSelectQuery sc (u_table this) (get_properties this) (get_id this) (u_key this) (all_flag this) args of
        Inl e \<Rightarrow> (Inl e, this, env)
      | Inr q \<Rightarrow>
          (case queryPromise drv q env of
             (Inl e, env') \<Rightarrow> (Inl e, this, env')
           | (Inr data, env') \<Rightarrow>
               (if \<not> truthy (lengthOf data) then (Inr (RNum 0), set_last q data this, env')
                else
                  (Inr (RResult data),
                   (set_last q data
                      (set_datum (case data of Rows rs \<Rightarrow> first rs | ResultSetHeader i a \<Rightarrow> None)
                         (set_data (asAnyval data) this)))\<lparr>u_read := True\<rparr>,
                   env'))))"

definition read ::
  "'w driver \<Rightarrow> scope \<Rightarrow> selectArgs \<Rightarrow> SQLObject \<Rightarrow> 'w env \<Rightarrow> (error + retval) \<times> SQLObject \<times> 'w env" where
  "read drv sc args this env =
     (case ensureInitialized drv this env of
        (Some e, this', env') \<Rightarrow> (Inl e, this', env')
      | (None, this', env') \<Rightarrow> read_body drv sc args this' env')"

text \<open>
  The loop of \<open>create\<close> that copies the truthy fields named by the schema; \<open>_args[key]\<close> is
  read through the prototype chain like every property.
\<close>

definition createFields :: "obj \<Rightarrow> obj \<Rightarrow> obj" where
  "createFields properties args =
     foldl (\<lambda>create key. if truthy (getProp args key) then setProp key (getProp args key) create else create)
       [] (keys properties)"

text \<open>\<open>const { safe = true } = args\<close>: the default applies when the property reads \<open>undefined\<close>.\<close>

definition safeOf :: "obj \<Rightarrow> bool" where
  "safeOf a = (if getProp a ''safe'' = JUndefined then True else truthy (getProp a ''safe''))"

text \<open>
  The body of \<open>create\<close> after the schema has been ensured. \<open>None\<close> is a call without an
  argument, on which the destructuring \<open>const { safe = true } = args\<close> throws.
\<close>

definition create_body ::
  "'w driver \<Rightarrow> scope \<Rightarrow> obj option \<Rightarrow> SQLObject \<Rightarrow> 'w env \<Rightarrow> (error + retval) \<times> SQLObject \<times> 'w env" where
  "create_body drv sc args this env =
     (case args of
        None \<Rightarrow> (Inl (TypeError (''Cannot destructure property '' @ sq @ ''safe'' @ sq @ '' of '' @ sq @ ''args'' @ sq @ '' as it is undefined.'')), this, env)
      | Some a \<Rightarrow>
          (let properties = get_properties this;
               tbl = u_table this;
               safe = safeOf a;
               create = createFields properties a;
               this1 = set_data (Array [create]) (set_datum (Some create) this)
           in case buildInsertQuery tbl create properties safe of
                None \<Rightarrow> (Inr (RNum 0), this1, env)
              | Some q \<Rightarrow>
                  (case queryPromise drv q env of
                     (Inl e, env') \<Rightarrow> (Inr RUndefined, this1, env')
                   | (Inr resp, env') \<Rightarrow>
                       (case read drv sc noArgs
                               (set_last q resp (this1\<lparr>u_key := JStr ''id'', u_id := insertIdOf resp\<rparr>)) env' of
                          (Inl e, this2, env2) \<Rightarrow> (Inr RUndefined, this2, env2)
                        | (Inr r, this2, env2) \<Rightarrow> (Inr (RResult resp), this2, env2)))))"

definition create ::
  "'w driver \<Rightarrow> scope \<Rightarrow> obj option \<Rightarrow> SQLObject \<Rightarrow> 'w env \<Rightarrow> (error + retval) \<times> SQLObject \<times> 'w env" where
  "create drv sc args this env =
     (case ensureInitialized drv this env of
        (Some e, this', env') \<Rightarrow> (Inl e, this', env')
      | (None, this', env') \<Rightarrow> create_body drv sc args this' env')"

text \<open>The statement \<open>destroy\<close> builds, and \<open>destroy\<close> itself.\<close>

definition destroyQuery :: "SQLObject \<Rightarrow> string" where
  "destroyQuery this = buildDeleteQuery (u_table this) (get_id this)"

definition destroy_body ::
  "'w driver \<Rightarrow> SQLObject \<Rightarrow> 'w env \<Rightarrow> (error + retval) \<times> SQLObject \<times> 'w env" where
  "destroy_body drv this env =
     (case queryPromise drv (destroyQuery this) env of
        (Inl e, env') \<Rightarrow> (Inr (RNum 0), this, env')
      | (Inr resp, env') \<Rightarrow>
          (Inr (RNum 1), this\<lparr>u_last := Some \<lparr>query = destroyQuery this, response = resp\<rparr>\<rparr>, env'))"

definition destroy ::
  "'w driver \<Rightarrow> SQLObject \<Rightarrow> 'w env \<Rightarrow> (error + retval) \<times> SQLObject \<times> 'w env" where
  "destroy drv this env =
     (case ensureInitialized drv this env of
        (Some e, this', env') \<Rightarrow> (Inl e, this', env')
      | (None, this', env') \<Rightarrow> destroy_body drv this' env')"

text \<open>
  The constructor: the defaults are \<open>table = null\<close>, \<open>data = [{}]\<close>, \<open>datum = {}\<close>,
  \<open>key = 'guid'\<close>, \<open>id = null\<close> and \<open>all = false\<close>, and \<open>data\<close> and \<open>datum\<close> go through
  their setters in that order.
\<close>

definition blank :: SQLObject where
  "blank = \<lparr>u_table = JUndefined, u_data = None, u_datum = None, u_key = JUndefined, u_id = JUndefined,
            all_flag = False, u_last = None, u_properties = None, u_initialized = False, u_read = False\<rparr>"

definition newSQLObject :: "jsval \<Rightarrow> anyval \<Rightarrow> obj option \<Rightarrow> jsval \<Rightarrow> jsval \<Rightarrow> bool \<Rightarrow> SQLObject" where
  "newSQLObject table data datum key ident all =
     (set_datum datum (set_data data (blank\<lparr>u_table := table\<rparr>)))\<lparr>u_key := key, u_id := ident, all_flag := all\<rparr>"

section \<open>An example database\<close>

text \<open>
  The closed examples below run the code against a database \<open>app\<close> holding one table
  \<open>widgets(id, name)\<close>: the driver answers the schema query with the two columns, every
  SELECT with the given rows, and rejects every other statement.
\<close>

definition schemaRows :: "obj list" where
  "schemaRows = [[(''DATA_TYPE'', JStr ''int''), (''COLUMN_NAME'', JStr ''id'')],
                 [(''DATA_TYPE'', JStr ''varchar''), (''COLUMN_NAME'', JStr ''name'')]]"

definition widgetRow :: obj where
  "widgetRow = [(''id'', JNum 7), (''name'', JStr ''a'')]"

definition widgetsDriver :: "obj list \<Rightarrow> unit driver" where
  "widgetsDriver rows str w =
     (if str = propertiesQuery (JStr ''app'') (JStr ''widgets'') then (Inr (Rows schemaRows), w)
      else if take 6 str = ''SELECT'' then (Inr (Rows rows), w)
      else (Inl (Error ''ER_DUP_ENTRY''), w))"

definition envU :: "unit env" where
  "envU = \<lparr>world = (), nextPool = 0, openPools = [], DB_DB = JStr ''app''\<rparr>"

text \<open>\<open>new SQLObject({table: 'widgets', datum: {name: 'old'}, key: 'id', id: 7})\<close>, and the same object once its schema is loaded.\<close>

definition widget :: SQLObject where
  "widget = newSQLObject (JStr ''widgets'') (Array [[]]) (Some [(''name'', JStr ''old'')]) (JStr ''id'') (JNum 7) False"

definition widgetLoaded :: SQLObject where
  "widgetLoaded = widget\<lparr>u_properties := Some [(''id'', JStr ''int''), (''name'', JStr ''varchar'')]\<rparr>"

definition widgetSelect :: string where
  "widgetSelect = ''SELECT * FROM widgets WHERE id = '' @ dq @ ''7'' @ dq @ '';''"


text \<open>
  Two drivers that count the statements they have seen: one rejects the first two and
  then answers, the other rejects every statement.
\<close>

definition flakyDriver :: "nat driver" where
  "flakyDriver str w =
     (if w < 2 then (Inl (Error ''deadlock''), Suc w) else (Inr (Rows [[(''n'', JNum 1)]]), Suc w))"

definition downDriver :: "nat driver" where
  "downDriver str w = (Inl (Error (''refused #'' @ string_of_nat w)), Suc w)"

definition envN :: "nat env" where
  "envN = \<lparr>world = 0, nextPool = 0, openPools = [], DB_DB = JStr ''app''\<rparr>"

section \<open>Properties of the query builders\<close>






lemma join_wrap:
  "xs \<noteq> [] \<Longrightarrow> l @ join (r @ s @ l) xs @ r = join s (map (\<lambda>x. l @ x @ r) xs)"
  by (induction "r @ s @ l" xs rule: join.induct) auto

text \<open>
  C2, as the builder has it: with \<open>safe = true\<close> and at least one column passing the
  filter, the statement is \<open>INSERT INTO <table> (`c1`, `c2`) VALUES ("v1", "v2");\<close>. The
  separators are a comma and a space, and the VALUES clause holds one double-quoted,
  escaped literal for each column.
\<close>

theorem buildInsertQuery_shape:
  assumes "insertElements data properties \<noteq> []"
  shows "buildInsertQuery table data properties True =
           Some (''INSERT INTO '' @ toString table
                 @ '' ('' @ join '', '' (map (\<lambda>c. ''`'' @ c @ ''`'') (insertElements data properties))
                 @ '') VALUES ('' @ join '', '' (map (\<lambda>c. dq @ escapeValue (getProp data c) @ dq) (insertElements data properties))
                 @ '');'')"
proof -
  let ?els = "insertElements data properties"
  have cols: "''`'' @ join ''`, `'' ?els @ ''`'' = join '', '' (map (\<lambda>c. ''`'' @ c @ ''`'') ?els)"
    using join_wrap [OF assms, of "''`''" "''`''" "'', ''"] by simp
  have "map (\<lambda>key. escapeValue (getProp data key)) ?els \<noteq> []"
    using assms by simp
  from join_wrap [OF this, of dq dq "'', ''"]
  have vals: "dq @ join (dq @ '', '' @ dq) (map (\<lambda>key. escapeValue (getProp data key)) ?els) @ dq
              = join '', '' (map (\<lambda>c. dq @ escapeValue (getProp data c) @ dq) ?els)"
    by (simp add: comp_def)
  have "buildInsertQuery table data properties True =
          Some (''INSERT INTO '' @ toString table @ '' ('' @ (''`'' @ join ''`, `'' ?els @ ''`'')
                @ '') VALUES ('' @ (dq @ join (dq @ '', '' @ dq) (map (\<lambda>key. escapeValue (getProp data key)) ?els) @ dq)
                @ '');'')"
    using assms by (simp add: buildInsertQuery_def Let_def)
  then show ?thesis
    unfolding cols vals .
qed

theorem buildInsertQuery_shape_witness:
  "insertElements [(''a'', JStr ''x''), (''b'', JStr ''y'')] [(''a'', JStr ''int''), (''b'', JStr ''text'')] \<noteq> []
   \<and> buildInsertQuery (JStr ''t'') [(''a'', JStr ''x''), (''b'', JStr ''y'')] [(''a'', JStr ''int''), (''b'', JStr ''text'')] True
       = Some (''INSERT INTO t (`a`, `b`) VALUES ('' @ dq @ ''x'' @ dq @ '', '' @ dq @ ''y'' @ dq @ '');'')"
proof -
  have h: "insertElements [(''a'', JStr ''x''), (''b'', JStr ''y'')] [(''a'', JStr ''int''), (''b'', JStr ''text'')] \<noteq> []"
    by (simp add: insertElements_def keys_def getProp_def objectPrototype_def)
  have els: "insertElements [(''a'', JStr ''x''), (''b'', JStr ''y'')] [(''a'', JStr ''int''), (''b'', JStr ''text'')] = [''a'', ''b'']"
    by (simp add: insertElements_def keys_def getProp_def objectPrototype_def)
  show ?thesis
    using h buildInsertQuery_shape [OF h, of "JStr ''t''"]
    by (simp add: els getProp_def objectPrototype_def escapeValue_def replaceAll_def)
qed

text \<open>
  The row \<open>{a: "x", b: "y"}\<close>: the statement carries the two literals \<open>"x", "y"\<close>, one for
  each column, and it is not the text \<open>INSERT INTO t (`a`,`b`) VALUES ("x","y");\<close>.
\<close>

theorem buildInsertQuery_shape_counterexample:
  "buildInsertQuery (JStr ''t'') [(''a'', JStr ''x''), (''b'', JStr ''y'')] [(''a'', JStr ''int''), (''b'', JStr ''text'')] True
     = Some (''INSERT INTO t (`a`, `b`) VALUES ('' @ dq @ ''x'' @ dq @ '', '' @ dq @ ''y'' @ dq @ '');'')
   \<and> buildInsertQuery (JStr ''t'') [(''a'', JStr ''x''), (''b'', JStr ''y'')] [(''a'', JStr ''int''), (''b'', JStr ''text'')] True
     \<noteq> Some (''INSERT INTO t (`a`,`b`) VALUES ('' @ dq @ ''x'' @ dq @ '','' @ dq @ ''y'' @ dq @ '');'')"
  by (simp add: buildInsertQuery_def insertElements_def keys_def getProp_def objectPrototype_def escapeValue_def replaceAll_def)

text \<open>
  C4: for every table and id the DELETE statement filters on the column \<open>guid\<close>; the
  statement \<open>destroy\<close> sends names \<open>guid\<close> whatever key column the object is configured
  with (the key only takes part in reading the id).
\<close>

theorem buildDeleteQuery_guid:
  "buildDeleteQuery table ident = ''DELETE FROM '' @ toString table @ '' WHERE guid = '' @ dq @ toString ident @ dq @ '';''
   \<and> destroyQuery (this\<lparr>u_key := k\<rparr>)
       = ''DELETE FROM '' @ toString (u_table this) @ '' WHERE guid = '' @ dq @ toString (get_id (this\<lparr>u_key := k\<rparr>)) @ dq @ '';''"
  by (simp add: buildDeleteQuery_def destroyQuery_def)

text \<open>
  C3 fails on the code: for a schema with a \<open>datetime\<close> column the projection reads the
  identifier \<open>datetime_format\<close>, which nothing defines, and the call throws a
  \<open>ReferenceError\<close> instead of returning text.
\<close>

theorem buildSelectQuery_datetime_raises:
  "buildSelectQuery module_scope (JStr ''events'') [(''id'', JStr ''int''), (''created'', JStr ''datetime'')]
     (JNum 1) (JStr ''id'') False noArgs
   = Inl (ReferenceError ''datetime_format is not defined'')"
  by (simp add: buildSelectQuery_def timeConversion_def keys_def getProp_def objectPrototype_def lookupIdent_def module_scope_def)

text \<open>Without a date or datetime column the builder does return text, in any scope.\<close>

lemma buildSelectQuery_returns_text:
  assumes "\<forall>key \<in> set (keys properties). getProp properties key \<noteq> JStr ''date'' \<and> getProp properties key \<noteq> JStr ''datetime''"
  shows "\<exists>q. buildSelectQuery sc table properties ident key all args = Inr q"
proof -
  have "filter (\<lambda>key. getProp properties key = JStr ''date'' \<or> getProp properties key = JStr ''datetime'')
          (keys properties) = []"
    using assms by (auto simp: filter_empty_conv)
  then show ?thesis
    by (simp add: buildSelectQuery_def timeConversion_def)
qed

text \<open>With one, and the identifiers unbound as in the module, it throws for every other argument.\<close>

lemma timeConversionItems_module_scope:
  "ks \<noteq> [] \<Longrightarrow> \<exists>e. timeConversionItems module_scope properties ks = Inl e"
  by (cases ks) (simp_all add: lookupIdent_def module_scope_def)

lemma buildSelectQuery_raises_on_dates:
  assumes "key \<in> set (keys properties)"
    and "getProp properties key = JStr ''date'' \<or> getProp properties key = JStr ''datetime''"
  shows "\<exists>e. buildSelectQuery module_scope table properties ident k all args = Inl e"
proof -
  have "filter (\<lambda>key. getProp properties key = JStr ''date'' \<or> getProp properties key = JStr ''datetime'')
          (keys properties) \<noteq> []"
    using assms by (auto simp: filter_empty_conv)
  from timeConversionItems_module_scope [OF this, of properties]
  show ?thesis
    by (auto simp: buildSelectQuery_def timeConversion_def)
qed

section \<open>Properties of the query executor\<close>

text \<open>
  C5 fails on the code: when the driver rejects the statement, \<open>queryPromise\<close> rejects with
  the pool it created still open (pool \<open>0\<close> below); \<open>pool.end()\<close> is only reached on success.
\<close>

theorem queryPromise_failure_leaves_pool:
  "queryPromise (\<lambda>str w. (Inl (Error ''ER_NO_SUCH_TABLE''), w)) ''SELECT * FROM missing''
     \<lparr>world = (), nextPool = 0, openPools = [], DB_DB = JStr ''app''\<rparr>
   = (Inl (Error ''ER_NO_SUCH_TABLE''), \<lparr>world = (), nextPool = 1, openPools = [0], DB_DB = JStr ''app''\<rparr>)"
  by (simp add: queryPromise_def createPool_def)

text \<open>The same for every driver that rejects the statement: the pool just created stays open.\<close>

lemma queryPromise_failure_keeps_pool:
  assumes "fst (drv str (world env)) = Inl e"
  shows "fst (queryPromise drv str env) = Inl e"
    and "nextPool env \<in> set (openPools (snd (queryPromise drv str env)))"
  using assms
  by (cases "drv str (world env)"; simp add: queryPromise_def createPool_def)+

text \<open>On success the pool is created and ended within the call.\<close>

lemma queryPromise_success_ends_pool:
  "drv str (world env) = (Inr rows, w) \<Longrightarrow>
   queryPromise drv str env
     = (Inr rows, env\<lparr>world := w, nextPool := Suc (nextPool env),
                        openPools := removeAll (nextPool env) (openPools env)\<rparr>)"
  by (simp add: queryPromise_def createPool_def poolEnd_def)

text \<open>Every execution creates a pool, so it never leaves the environment as it found it.\<close>

lemma queryPromise_changes_env: "snd (queryPromise drv q env) \<noteq> env"
proof -
  have "nextPool (snd (queryPromise drv q env)) = Suc (nextPool env)"
    by (auto simp: queryPromise_def createPool_def poolEnd_def split: prod.splits sum.splits)
  then show ?thesis by (metis n_not_Suc_n)
qed

lemma loop_success:
  "attempts drv q (Suc k) env = map Inl es @ [Inr r] \<Longrightarrow> a + int k < retries \<Longrightarrow>
   fst (executeQueryWithRetry_loop drv q retries a le env) = Inr (RResult r)"
proof (induction k arbitrary: env a le es)
  case 0
  obtain r0 env' where qp: "queryPromise drv q env = (r0, env')" by (cases "queryPromise drv q env")
  with 0 have "r0 = Inr r" by (cases es) auto
  with 0 qp show ?case by (simp add: executeQueryWithRetry_loop.simps [of drv q retries a le env])
next
  case (Suc k)
  obtain r0 env' where qp: "queryPromise drv q env = (r0, env')" by (cases "queryPromise drv q env")
  obtain r1 env'' where qp': "queryPromise drv q env' = (r1, env'')" by (cases "queryPromise drv q env'")
  from Suc.prems(1) qp qp' have "r0 # r1 # attempts drv q k env'' = map Inl es @ [Inr r]" by simp
  then obtain e es' where es: "es = e # es'" and r0: "r0 = Inl e"
    and rest: "r1 # attempts drv q k env'' = map Inl es' @ [Inr r]"
    by (cases es) auto
  from rest qp' have att: "attempts drv q (Suc k) env' = map Inl es' @ [Inr r]" by simp
  from Suc.prems(2) have lt: "(a + 1) + int k < retries" by simp
  from Suc.IH [OF att lt]
  have "fst (executeQueryWithRetry_loop drv q retries (a + 1) (Some e) env') = Inr (RResult r)" .
  with qp r0 lt show ?case
    by (simp add: executeQueryWithRetry_loop.simps [of drv q retries a le env])
qed

lemma loop_exhausted:
  "attempts drv q (Suc k) env = map Inl es \<Longrightarrow> a + int (Suc k) = retries \<Longrightarrow>
   fst (executeQueryWithRetry_loop drv q retries a le env)
     = Inl (Error (''Query failed after '' @ string_of_int retries @ '' attempts: '' @ message (last es)))"
proof (induction k arbitrary: env a le es)
  case 0
  obtain r0 env' where qp: "queryPromise drv q env = (r0, env')" by (cases "queryPromise drv q env")
  with 0 obtain e where "es = [e]" "r0 = Inl e" by (cases es) auto
  with 0 qp show ?case by (simp add: executeQueryWithRetry_loop.simps [of drv q retries a le env])
next
  case (Suc k)
  obtain r0 env' where qp: "queryPromise drv q env = (r0, env')" by (cases "queryPromise drv q env")
  obtain r1 env'' where qp': "queryPromise drv q env' = (r1, env'')" by (cases "queryPromise drv q env'")
  from Suc.prems(1) qp qp' have "r0 # r1 # attempts drv q k env'' = map Inl es" by simp
  then obtain e es' where es: "es = e # es'" and r0: "r0 = Inl e"
    and rest: "r1 # attempts drv q k env'' = map Inl es'"
    by (cases es) auto
  from rest have ne: "es' \<noteq> []" by auto
  from rest qp' have att: "attempts drv q (Suc k) env' = map Inl es'" by simp
  from Suc.prems(2) have eq: "(a + 1) + int (Suc k) = retries" by simp
  from Suc.IH [OF att eq]
  have "fst (executeQueryWithRetry_loop drv q retries (a + 1) (Some e) env')
          = Inl (Error (''Query failed after '' @ string_of_int retries @ '' attempts: '' @ message (last es')))" .
  with qp r0 eq es ne show ?case
    by (simp add: executeQueryWithRetry_loop.simps [of drv q retries a le env])
qed

text \<open>
  C6: if the first \<open>k\<close> executions are rejected and the next one resolves with \<open>r\<close>, and
  \<open>k < retries\<close>, then \<open>executeQueryWithRetry\<close> resolves with \<open>r\<close>; if all of the \<open>retries\<close>
  executions are rejected (\<open>retries > 0\<close>), it rejects with an error whose message names
  the count \<open>retries\<close> and the message of the last error.
\<close>

theorem executeQueryWithRetry_outcome:
  "(attempts drv q (Suc k) env = map Inl es @ [Inr r] \<and> int k < retries
      \<longrightarrow> fst (executeQueryWithRetry drv q retries env) = Inr (RResult r))
   \<and> (0 < retries \<and> attempts drv q (nat retries) env = map Inl es'
      \<longrightarrow> fst (executeQueryWithRetry drv q retries env)
            = Inl (Error (''Query failed after '' @ string_of_int retries @ '' attempts: '' @ message (last es'))))"
proof (intro conjI impI)
  assume "attempts drv q (Suc k) env = map Inl es @ [Inr r] \<and> int k < retries"
  then show "fst (executeQueryWithRetry drv q retries env) = Inr (RResult r)"
    unfolding executeQueryWithRetry_def using loop_success [of drv q k env es r 0 retries None] by simp
next
  assume h: "0 < retries \<and> attempts drv q (nat retries) env = map Inl es'"
  then obtain k where k: "nat retries = Suc k" by (cases "nat retries") auto
  with h have "0 + int (Suc k) = retries" by linarith
  with h k show "fst (executeQueryWithRetry drv q retries env)
            = Inl (Error (''Query failed after '' @ string_of_int retries @ '' attempts: '' @ message (last es')))"
    unfolding executeQueryWithRetry_def using loop_exhausted [of drv q k env es' 0 retries None] by simp
qed

lemma attempts_flaky:
  "attempts flakyDriver ''SELECT 1'' (Suc 2) envN = map Inl [Error ''deadlock'', Error ''deadlock''] @ [Inr (Rows [[(''n'', JNum 1)]])]"
  by (simp add: numeral_2_eq_2 queryPromise_def createPool_def poolEnd_def flakyDriver_def envN_def)

lemma attempts_down:
  "attempts downDriver ''SELECT 1'' (nat 3) envN = map Inl [Error ''refused #0'', Error ''refused #1'', Error ''refused #2'']"
  by (simp add: numeral_3_eq_3 numeral_2_eq_2 queryPromise_def createPool_def poolEnd_def downDriver_def envN_def string_of_nat.simps digit_def)

theorem executeQueryWithRetry_outcome_witness:
  "(attempts flakyDriver ''SELECT 1'' (Suc 2) envN = map Inl [Error ''deadlock'', Error ''deadlock''] @ [Inr (Rows [[(''n'', JNum 1)]])]
    \<and> int 2 < 3
    \<and> fst (executeQueryWithRetry flakyDriver ''SELECT 1'' 3 envN) = Inr (RResult (Rows [[(''n'', JNum 1)]])))
   \<and> ((0::int) < 3
    \<and> attempts downDriver ''SELECT 1'' (nat 3) envN = map Inl [Error ''refused #0'', Error ''refused #1'', Error ''refused #2'']
    \<and> fst (executeQueryWithRetry downDriver ''SELECT 1'' 3 envN) = Inl (Error ''Query failed after 3 attempts: refused #2''))"
  using executeQueryWithRetry_outcome [of flakyDriver "''SELECT 1''" 2 envN "[Error ''deadlock'', Error ''deadlock'']" "Rows [[(''n'', JNum 1)]]" 3 "[]"]
    executeQueryWithRetry_outcome [of downDriver "''SELECT 1''" 0 envN "[]" "Rows []" 3 "[Error ''refused #0'', Error ''refused #1'', Error ''refused #2'']"]
    attempts_flaky attempts_down
  by (simp add: string_of_int_def string_of_nat.simps digit_def)

text \<open>
  C9: with \<open>retries \<le> 0\<close> the call resolves with \<open>undefined\<close> and leaves the environment as
  it was: no pool was created, so the statement was not executed (every execution
  creates a pool, \<open>queryPromise_changes_env\<close>).
\<close>

theorem executeQueryWithRetry_nonpositive:
  "retries \<le> 0 \<Longrightarrow> executeQueryWithRetry drv q retries env = (Inr RUndefined, env)"
  by (simp add: executeQueryWithRetry_def executeQueryWithRetry_loop.simps [of drv q retries 0 None env])

theorem executeQueryWithRetry_nonpositive_witness:
  "(0::int) \<le> 0 \<and> executeQueryWithRetry downDriver ''SELECT 1'' 0 envN = (Inr RUndefined, envN)
   \<and> (- 2::int) \<le> 0 \<and> executeQueryWithRetry downDriver ''SELECT 1'' (- 2) envN = (Inr RUndefined, envN)"
  using executeQueryWithRetry_nonpositive [of 0 downDriver "''SELECT 1''" envN]
    executeQueryWithRetry_nonpositive [of "- 2" downDriver "''SELECT 1''" envN]
  by simp

section \<open>Properties of the record object\<close>

lemma ensureInitialized_cases:
  assumes "ensureInitialized drv this env = (r, this0, env0)"
  shows "this0 = this \<or> (\<exists>p. this0 = this\<lparr>u_properties := Some p\<rparr>)"
  using assms
  by (auto simp: ensureInitialized_def initialize_def split: if_splits prod.splits sum.splits)

lemma ensureInitialized_data:
  assumes "ensureInitialized drv this env = (r, this0, env0)"
  shows "u_data this0 = u_data this" "u_datum this0 = u_datum this" "u_read this0 = u_read this"
  using ensureInitialized_cases [OF assms] by auto

lemma buildSelectQuery_nonempty: "buildSelectQuery sc t p i k al args = Inr q \<Longrightarrow> q \<noteq> []"
  by (auto simp: buildSelectQuery_def split: sum.splits)

lemma get_data_cong: "u_data a = u_data b \<Longrightarrow> u_datum a = u_datum b \<Longrightarrow> get_data a = get_data b"
  by (auto simp: get_data_def split: option.splits)

lemma get_datum_cong: "u_data a = u_data b \<Longrightarrow> u_datum a = u_datum b \<Longrightarrow> get_datum a = get_datum b"
  by (auto simp: get_datum_def get_data_def split: option.splits)

text \<open>
  C7: once the schema is ensured and the SELECT \<open>q\<close> is built, a result set \<open>rs\<close> from the
  driver decides \<open>read\<close>. If \<open>rs\<close> is empty, \<open>read\<close> returns \<open>0\<close>, records \<open>q\<close> and the empty
  row set as the last operation, and leaves \<open>data\<close> and \<open>datum\<close> as they were. If \<open>rs\<close> is
  not empty, \<open>read\<close> returns it, \<open>data\<close> becomes \<open>rs\<close>, \<open>datum\<close> its first row, and the read
  flag is set.
\<close>

theorem read_empty_and_nonempty:
  assumes ens: "ensureInitialized drv this env = (None, this0, env0)"
    and q: "buildSelectQuery sc (u_table this0) (get_properties this0) (get_id this0) (u_key this0) (all_flag this0) args = Inr q"
    and qp: "queryPromise drv q env0 = (Inr (Rows rs), env1)"
  shows "(rs = [] \<longrightarrow>
            read drv sc args this env = (Inr (RNum 0), this0\<lparr>u_last := Some \<lparr>query = q, response = Rows []\<rparr>\<rparr>, env1)
            \<and> u_data (fst (snd (read drv sc args this env))) = u_data this
            \<and> u_datum (fst (snd (read drv sc args this env))) = u_datum this
            \<and> get_data (fst (snd (read drv sc args this env))) = get_data this
            \<and> get_datum (fst (snd (read drv sc args this env))) = get_datum this)
       \<and> (rs \<noteq> [] \<longrightarrow>
            read drv sc args this env
              = (Inr (RResult (Rows rs)),
                 this0\<lparr>u_data := Some rs, u_datum := Some (hd rs),
                       u_last := Some \<lparr>query = q, response = Rows rs\<rparr>, u_read := True\<rparr>,
                 env1)
            \<and> get_data (fst (snd (read drv sc args this env))) = rs
            \<and> get_datum (fst (snd (read drv sc args this env))) = hd rs
            \<and> u_read (fst (snd (read drv sc args this env))))"
proof (intro conjI impI)
  note qne = buildSelectQuery_nonempty [OF q]
  note pres = ensureInitialized_data [OF ens]
  {
    assume e: "rs = []"
    show r: "read drv sc args this env = (Inr (RNum 0), this0\<lparr>u_last := Some \<lparr>query = q, response = Rows []\<rparr>\<rparr>, env1)"
      using ens q qp qne e by (simp add: read_def read_body_def set_last_def)
    show d: "u_data (fst (snd (read drv sc args this env))) = u_data this"
      using r pres by simp
    show m: "u_datum (fst (snd (read drv sc args this env))) = u_datum this"
      using r pres by simp
    show "get_data (fst (snd (read drv sc args this env))) = get_data this"
      using d m by (rule get_data_cong)
    show "get_datum (fst (snd (read drv sc args this env))) = get_datum this"
      using d m by (rule get_datum_cong)
  }
  {
    assume ne: "rs \<noteq> []"
    then obtain r rs' where rs: "rs = r # rs'" by (cases rs) auto
    show r: "read drv sc args this env
              = (Inr (RResult (Rows rs)),
                 this0\<lparr>u_data := Some rs, u_datum := Some (hd rs),
                       u_last := Some \<lparr>query = q, response = Rows rs\<rparr>, u_read := True\<rparr>,
                 env1)"
      using ens q qp qne rs by (simp add: read_def read_body_def set_last_def set_datum_def)
    show "get_data (fst (snd (read drv sc args this env))) = rs"
      and "get_datum (fst (snd (read drv sc args this env))) = hd rs"
      and "u_read (fst (snd (read drv sc args this env)))"
      using r by (simp_all add: get_data_def get_datum_def)
  }
qed

lemma widget_ensure:
  "ensureInitialized (widgetsDriver rows) widget envU = (None, widgetLoaded, envU\<lparr>nextPool := 1\<rparr>)"
  by (simp add: ensureInitialized_def get_initialized_def initialize_def getPropertiesFromDB_def
      queryPromise_def createPool_def poolEnd_def widgetsDriver_def envU_def widget_def newSQLObject_def
      blank_def set_datum_def widgetLoaded_def propertiesOfRows_def setProp_def schemaRows_def getProp_def objectPrototype_def)

lemma widget_select:
  "buildSelectQuery module_scope (u_table widgetLoaded) (get_properties widgetLoaded) (get_id widgetLoaded)
     (u_key widgetLoaded) (all_flag widgetLoaded) noArgs = Inr widgetSelect"
  by (simp add: buildSelectQuery_def timeConversion_def whereStmt_def noArgs_def widgetLoaded_def widget_def
      newSQLObject_def blank_def set_datum_def get_properties_def get_id_def get_data_def keys_def getProp_def objectPrototype_def
      widgetSelect_def string_of_int_def string_of_nat.simps digit_def)

lemma widget_select_run:
  "queryPromise (widgetsDriver rows) widgetSelect (envU\<lparr>nextPool := 1\<rparr>) = (Inr (Rows rows), envU\<lparr>nextPool := 2\<rparr>)"
  by (simp add: queryPromise_def createPool_def poolEnd_def widgetsDriver_def envU_def widgetSelect_def
      propertiesQuery_def)

theorem read_empty_and_nonempty_witness:
  "ensureInitialized (widgetsDriver []) widget envU = (None, widgetLoaded, envU\<lparr>nextPool := 1\<rparr>)
   \<and> buildSelectQuery module_scope (u_table widgetLoaded) (get_properties widgetLoaded) (get_id widgetLoaded)
        (u_key widgetLoaded) (all_flag widgetLoaded) noArgs = Inr widgetSelect
   \<and> queryPromise (widgetsDriver []) widgetSelect (envU\<lparr>nextPool := 1\<rparr>) = (Inr (Rows []), envU\<lparr>nextPool := 2\<rparr>)
   \<and> read (widgetsDriver []) module_scope noArgs widget envU
        = (Inr (RNum 0), widgetLoaded\<lparr>u_last := Some \<lparr>query = widgetSelect, response = Rows []\<rparr>\<rparr>, envU\<lparr>nextPool := 2\<rparr>)
   \<and> get_datum (fst (snd (read (widgetsDriver []) module_scope noArgs widget envU))) = [(''name'', JStr ''old'')]
   \<and> queryPromise (widgetsDriver [widgetRow]) widgetSelect (envU\<lparr>nextPool := 1\<rparr>)
        = (Inr (Rows [widgetRow]), envU\<lparr>nextPool := 2\<rparr>)
   \<and> read (widgetsDriver [widgetRow]) module_scope noArgs widget envU
        = (Inr (RResult (Rows [widgetRow])),
           widgetLoaded\<lparr>u_data := Some [widgetRow], u_datum := Some widgetRow,
                        u_last := Some \<lparr>query = widgetSelect, response = Rows [widgetRow]\<rparr>, u_read := True\<rparr>,
           envU\<lparr>nextPool := 2\<rparr>)
   \<and> get_datum (fst (snd (read (widgetsDriver [widgetRow]) module_scope noArgs widget envU))) = widgetRow"
  using read_empty_and_nonempty [OF widget_ensure widget_select widget_select_run, of "[]"]
    read_empty_and_nonempty [OF widget_ensure widget_select widget_select_run, of "[widgetRow]"]
    widget_ensure [of "[]"] widget_select widget_select_run [of "[]"] widget_select_run [of "[widgetRow]"]
  by (simp add: get_datum_def widgetLoaded_def widget_def newSQLObject_def blank_def set_datum_def)



text \<open>
  For a schema without duplicate keys the loop collects, in schema order, the keys whose
  field is truthy; the key \<open>__proto__\<close> never becomes a property.
\<close>

lemma foldl_setProp_fresh:
  "distinct ks \<Longrightarrow> set ks \<inter> fst ` set acc = {} \<Longrightarrow> ''__proto__'' \<notin> fst ` set acc \<Longrightarrow>
   foldl (\<lambda>create key. if truthy (getProp a key) then setProp key (getProp a key) create else create) acc ks
     = acc @ map (\<lambda>k. (k, getProp a k)) (filter (\<lambda>k. truthy (getProp a k) \<and> k \<noteq> ''__proto__'') ks)"
proof (induction ks arbitrary: acc)
  case Nil
  then show ?case by simp
next
  case (Cons k ks)
  have upd: "AList.update k v acc = acc @ [(k, v)]" if "k \<notin> fst ` set acc" for v
    using that by (induction acc) auto
  from Cons.prems have fresh: "k \<notin> fst ` set acc" by auto
  have nomap: "map_of acc ''__proto__'' = None"
    using Cons.prems(3) by (simp add: map_of_eq_None_iff)
  show ?case
  proof (cases "truthy (getProp a k) \<and> k \<noteq> ''__proto__''")
    case True
    then have step: "setProp k (getProp a k) acc = acc @ [(k, getProp a k)]"
      using upd [OF fresh] by (simp add: setProp_def)
    have "set ks \<inter> fst ` set (acc @ [(k, getProp a k)]) = {}"
      and "''__proto__'' \<notin> fst ` set (acc @ [(k, getProp a k)])"
      using Cons.prems True by auto
    with Cons.IH [of "acc @ [(k, getProp a k)]"] Cons.prems True step
    show ?thesis by simp
  next
    case False
    then have step: "(if truthy (getProp a k) then setProp k (getProp a k) acc else acc) = acc"
      using nomap by (auto simp: setProp_def)
    from Cons.IH [of acc] Cons.prems have
      "foldl (\<lambda>create key. if truthy (getProp a key) then setProp key (getProp a key) create else create) acc ks
         = acc @ map (\<lambda>k. (k, getProp a k)) (filter (\<lambda>k. truthy (getProp a k) \<and> k \<noteq> ''__proto__'') ks)"
      by auto
    with False step show ?thesis by auto
  qed
qed

lemma createFields_filter:
  "distinct (keys properties) \<Longrightarrow>
   createFields properties a
     = map (\<lambda>k. (k, getProp a k)) (filter (\<lambda>k. truthy (getProp a k) \<and> k \<noteq> ''__proto__'') (keys properties))"
  unfolding createFields_def using foldl_setProp_fresh [of "keys properties" "[]" a] by simp








text \<open>
  C10: assigning a value that is not an array to \<open>data\<close> leaves the object, and so \<open>data\<close>
  and \<open>datum\<close>, as they were; assigning an array makes it \<open>data\<close> and stores its first
  element (\<open>undefined\<close> for an empty array) in \<open>_datum\<close>, so that \<open>datum\<close> reads the first row
  of a non-empty array.
\<close>

theorem data_setter_effect:
  "(\<not> isArray v \<longrightarrow> set_data v this = this
                     \<and> get_data (set_data v this) = get_data this
                     \<and> get_datum (set_data v this) = get_datum this)
   \<and> u_data (set_data (Array rs) this) = Some rs
   \<and> get_data (set_data (Array rs) this) = rs
   \<and> u_datum (set_data (Array rs) this) = first rs
   \<and> (rs \<noteq> [] \<longrightarrow> get_datum (set_data (Array rs) this) = hd rs)"
proof -
  have "\<not> isArray v \<Longrightarrow> set_data v this = this"
    by (cases v) simp_all
  moreover have "rs \<noteq> [] \<Longrightarrow> get_datum (set_data (Array rs) this) = hd rs"
    by (cases rs) (simp_all add: get_datum_def set_datum_def)
  ultimately show ?thesis
    by (simp add: get_data_def set_datum_def)
qed

theorem data_setter_effect_witness:
  "\<not> isArray (Object widgetRow) \<and> set_data (Object widgetRow) widget = widget
   \<and> \<not> isArray (Scalar (JStr ''rows'')) \<and> get_datum (set_data (Scalar (JStr ''rows'')) widget) = [(''name'', JStr ''old'')]
   \<and> [widgetRow] \<noteq> [] \<and> get_datum (set_data (Array [widgetRow]) widget) = widgetRow
   \<and> get_data (set_data (Array [widgetRow]) widget) = [widgetRow]"
  using data_setter_effect [of "Object widgetRow" widget "[widgetRow]"]
    data_setter_effect [of "Scalar (JStr ''rows'')" widget "[widgetRow]"]
  by (simp add: get_datum_def widget_def newSQLObject_def blank_def set_datum_def)

end
